theory Spec2Isabelle
  imports Complex_Main "HOL-Library.Word"
begin

section \<open>JavaScript values\<close>

text \<open>
  A JavaScript string is a sequence of UTF-16 code units: \<open>length\<close>, \<open>substring\<close> and
  \<open>trim\<close> all count and inspect code units. String literals of the source are ASCII and
  are written with \<open>utf16\<close>.
\<close>

type_synonym jsstring = "16 word list"

definition utf16 :: "string \<Rightarrow> jsstring" where
  "utf16 s = map of_char s"

text \<open>
  \<open>String.prototype.trim\<close> removes WhiteSpace and LineTerminator code points from both
  ends (ECMAScript: TAB, VT, FF, ZWNBSP, the Unicode category Zs, and LF, CR, LS, PS).
  All of them lie in the Basic Multilingual Plane, so each is a single code unit.
\<close>

definition isWhiteSpace :: "16 word \<Rightarrow> bool" where
  "isWhiteSpace c \<longleftrightarrow>
     c \<in> set [0x0009, 0x000A, 0x000B, 0x000C, 0x000D, 0x0020, 0x00A0, 0x1680,
              0x2028, 0x2029, 0x202F, 0x205F, 0x3000, 0xFEFF]
     \<or> (0x2000 \<le> c \<and> c \<le> 0x200A)"

definition trim :: "jsstring \<Rightarrow> jsstring" where
  "trim s = rev (dropWhile isWhiteSpace (rev (dropWhile isWhiteSpace s)))"

text \<open>\<open>Array.prototype.join\<close> on an array of strings.\<close>

fun join :: "jsstring \<Rightarrow> jsstring list \<Rightarrow> jsstring" where
  "join sep [] = []"
| "join sep [x] = x"
| "join sep (x # y # ys) = x @ sep @ join sep (y # ys)"

text \<open>
  What a \<open>throw\<close> can carry: a \<open>ZodError\<close> (an \<open>Error\<close> subclass, with its own message
  and the messages of its issues), any other \<open>Error\<close> instance with its message, or a
  value that is not an \<open>Error\<close>, kept as its \<open>String(...)\<close> rendering.
\<close>

datatype thrown =
    ZodError jsstring "jsstring list"
  | Error jsstring
  | NonError jsstring

text \<open>\<open>error instanceof Error ? error.message : String(error)\<close>, as \<open>cli.ts\<close> writes it.\<close>

fun error_description :: "thrown \<Rightarrow> jsstring" where
  "error_description (ZodError m issues) = m"
| "error_description (Error m) = m"
| "error_description (NonError s) = s"

section \<open>Data model\<close>

subsection \<open>The plan (\<open>plannerSchema\<close>)\<close>

datatype tool_name = WebSearch | FetchUrl | GenerateHaiku

record plan_parameters =
  p_webSearch :: "jsstring list option"
  p_fetchUrl :: "jsstring list option"
  p_generateHaiku :: "jsstring list option"

record plan =
  reasoning :: jsstring
  tools :: "tool_name list"
  parameters :: plan_parameters
  expectedWorkflow :: jsstring

text \<open>\<open>plan.object.parameters[toolName]\<close>: \<open>None\<close> is \<open>undefined\<close>.\<close>

fun lookup_parameters :: "plan_parameters \<Rightarrow> tool_name \<Rightarrow> jsstring list option" where
  "lookup_parameters ps WebSearch = p_webSearch ps"
| "lookup_parameters ps FetchUrl = p_fetchUrl ps"
| "lookup_parameters ps GenerateHaiku = p_generateHaiku ps"

subsection \<open>Web search (\<open>web-search.ts\<close>)\<close>

datatype search_type = Neural | Keyword | Auto

text \<open>
  The options as a caller passes them (every field may be absent at run time) and as
  \<open>SearchOptionsSchema.parse\<close> returns them (defaults filled in). Numbers are JavaScript
  doubles; only comparisons, \<open>Math.min\<close> and \<open>Math.max\<close> are applied to them, which are
  exact, and \<open>z.number()\<close> refuses \<open>NaN\<close>, so they are modelled as reals.
\<close>

record SearchOptions_input =
  i_numResults :: "real option"
  i_searchType :: "search_type option"
  i_text :: "bool option"
  i_highlights :: "bool option"
  i_summary :: "bool option"
  i_startPublishedDate :: "jsstring option"
  i_endPublishedDate :: "jsstring option"
  i_includeDomains :: "jsstring list option"
  i_excludeDomains :: "jsstring list option"

record SearchOptions =
  o_numResults :: real
  o_searchType :: search_type
  o_text :: bool
  o_highlights :: bool
  o_summary :: bool
  o_startPublishedDate :: "jsstring option"
  o_endPublishedDate :: "jsstring option"
  o_includeDomains :: "jsstring list option"
  o_excludeDomains :: "jsstring list option"

text \<open>The object \<open>searchParams\<close> handed to \<open>exa.searchAndContents\<close>.\<close>

record searchParams =
  sp_numResults :: real
  sp_type :: search_type
  sp_text :: bool
  sp_highlights :: bool
  sp_summary :: bool
  sp_startPublishedDate :: "jsstring option"
  sp_endPublishedDate :: "jsstring option"
  sp_includeDomains :: "jsstring list option"
  sp_excludeDomains :: "jsstring list option"

record ExaSearchResult =
  r_title :: jsstring
  r_url :: jsstring
  r_id :: jsstring
  r_text :: "jsstring option"
  r_highlights :: "jsstring list option"
  r_summary :: "jsstring option"
  r_publishedDate :: "jsstring option"
  r_author :: "jsstring option"
  r_image :: "jsstring option"
  r_favicon :: "jsstring option"

text \<open>
  A result as the provider sends it (\<open>any\<close> in the source): the ten fields that
  \<open>webSearch\<close> copies, and the provider's further fields, which it drops.
\<close>

record provider_result = ExaSearchResult +
  r_score :: "real option"
  r_highlightScores :: "real list option"

record provider_response =
  resp_results :: "provider_result list"
  resp_requestId :: jsstring
  resp_costDollars :: "real option"

record WebSearchResponse =
  results :: "ExaSearchResult list"
  requestId :: jsstring
  resolvedSearchType :: search_type
  costDollars :: "real option"

subsection \<open>Tool results (\<open>cli.ts\<close>)\<close>

text \<open>
  An entry of \<open>toolResults\<close>: the tool, its argument (under the key \<open>query\<close>, \<open>url\<close> or
  \<open>prompt\<close>, which the tool determines) and either \<open>result\<close> or \<open>error\<close>.
\<close>

datatype payload =
    SearchPayload "ExaSearchResult list"
  | FetchPayload jsstring nat
  | HaikuPayload jsstring

datatype outcome = Result payload | ErrorMessage jsstring

record tool_result =
  tool :: tool_name
  arg :: jsstring
  outcome :: outcome

section \<open>Effects\<close>

text \<open>
  The program talks to four collaborators, the Exa search client, the fetch engine, the
  text model and the planning model, and reads \<open>EXA_API_KEY\<close> from the process
  environment. Every call to a collaborator is an event of a log, in the order in which
  the calls are issued; the loops await each call before the next. A computation takes
  the log so far and returns the log it leaves, together with the value it returns or
  the value it throws. Console output (\<open>console.log\<close>, \<open>process.stdout.write\<close>) is
  narration only and is left out.
\<close>

datatype model = gpt_4_1_nano | gpt_4_1_mini | gemini_2_5_flash

text \<open>
  The three prompts of the program are fixed templates around the values kept here:
  the haiku prompt around the tool's argument, the planner prompt around the user
  query, and the synthesis prompt around the plan's \<open>reasoning\<close> and \<open>expectedWorkflow\<close>,
  the user query and \<open>JSON.stringify(toolResults, null, 2)\<close>.
\<close>

datatype prompt =
    haikuPrompt jsstring
  | plannerPrompt jsstring
  | synthesisPrompt jsstring jsstring jsstring "tool_result list"

datatype event =
    Exa_searchAndContents jsstring jsstring searchParams
  | HybridEngine_new nat
  | HybridEngine_fetchHTML nat jsstring
  | HybridEngine_cleanup nat
  | ai_generateText model prompt
  | ai_generateObject model prompt

type_synonym 'a io = "event list \<Rightarrow> (thrown + 'a) \<times> event list"

definition io_return :: "'a \<Rightarrow> 'a io" where
  "io_return v tr = (Inr v, tr)"

definition io_throw :: "thrown \<Rightarrow> 'a io" where
  "io_throw e tr = (Inl e, tr)"

definition io_bind :: "'a io \<Rightarrow> ('a \<Rightarrow> 'b io) \<Rightarrow> 'b io" where
  "io_bind m f tr =
     (case m tr of
        (Inl e, tr') \<Rightarrow> (Inl e, tr')
      | (Inr v, tr') \<Rightarrow> f v tr')"

text \<open>\<open>try { body } catch (error) { handler }\<close>\<close>

definition try_catch :: "'a io \<Rightarrow> (thrown \<Rightarrow> 'a io) \<Rightarrow> 'a io" where
  "try_catch body handler tr =
     (case body tr of
        (Inl error, tr') \<Rightarrow> handler error tr'
      | (Inr v, tr') \<Rightarrow> (Inr v, tr'))"

text \<open>
  \<open>try { body } finally { finalizer }\<close>: the finalizer runs after the body however the
  body ends; what the body returned or threw stands unless the finalizer itself throws.
\<close>

definition try_finally :: "'a io \<Rightarrow> unit io \<Rightarrow> 'a io" where
  "try_finally body finalizer tr =
     (case body tr of
        (r, tr') \<Rightarrow>
          (case finalizer tr' of
             (Inl error, tr'') \<Rightarrow> (Inl error, tr'')
           | (Inr u, tr'') \<Rightarrow> (r, tr'')))"

text \<open>
  A call to a collaborator: the event is appended to the log, and the collaborator
  answers (returns or throws) as a function of everything that was called before, so
  that the same call may succeed once and fail the next time.
\<close>

definition io_call :: "event \<Rightarrow> (event list \<Rightarrow> thrown + 'a) \<Rightarrow> 'a io" where
  "io_call ev answer tr = (answer tr, tr @ [ev])"

text \<open>A pure step that may throw (a \<open>parse\<close>).\<close>

definition io_of :: "thrown + 'a \<Rightarrow> 'a io" where
  "io_of r tr = (r, tr)"

subsection \<open>The collaborators\<close>

text \<open>
  The messages of the zod library are not part of this repository; they are parameters:
  the issue message of a missing value, of a number below \<open>min\<close> and above \<open>max\<close>, and
  the rendering of a \<open>ZodError\<close>'s own \<open>message\<close> from its issue messages.
\<close>

record zod_messages =
  zod_invalid_type :: jsstring
  zod_too_small :: jsstring
  zod_too_big :: jsstring
  zod_error_message :: "jsstring list \<Rightarrow> jsstring"

record html_result =
  html_content :: jsstring
  html_error :: "thrown option"

text \<open>
  The constructor of the Exa client (\<open>new Exa(apiKey)\<close>, of the exa-js library) is not
  part of this repository either. It calls no provider, but it builds the request
  headers from the key and throws for a key it refuses; what it does with a key is the
  parameter \<open>new_Exa\<close>.
\<close>

record env =
  EXA_API_KEY :: "jsstring option"
  zod :: zod_messages
  new_Exa :: "jsstring \<Rightarrow> thrown + unit"
  searchAndContents :: "event list \<Rightarrow> jsstring \<Rightarrow> jsstring \<Rightarrow> searchParams \<Rightarrow> thrown + provider_response"
  fetchHTML :: "event list \<Rightarrow> jsstring \<Rightarrow> thrown + html_result"
  cleanup :: "event list \<Rightarrow> thrown + unit"
  generateText :: "event list \<Rightarrow> model \<Rightarrow> prompt \<Rightarrow> thrown + jsstring"
  generateObject :: "event list \<Rightarrow> model \<Rightarrow> prompt \<Rightarrow> thrown + plan"

section \<open>The executors\<close>

subsection \<open>\<open>webSearch\<close>\<close>

definition zod_fail :: "zod_messages \<Rightarrow> jsstring list \<Rightarrow> thrown + 'a" where
  "zod_fail z issues = Inl (ZodError (zod_error_message z issues) issues)"

text \<open>\<open>z.string().min(1, "EXA_API_KEY is required")\<close> on \<open>process.env["EXA_API_KEY"]\<close>.\<close>

definition ExaApiKeySchema_parse :: "zod_messages \<Rightarrow> jsstring option \<Rightarrow> thrown + jsstring" where
  "ExaApiKeySchema_parse z v =
     (case v of
        None \<Rightarrow> zod_fail z [zod_invalid_type z]
      | Some s \<Rightarrow>
          if length s < 1 then zod_fail z [utf16 ''EXA_API_KEY is required''] else Inr s)"

text \<open>
  \<open>SearchOptionsSchema.parse\<close> on a present options object: \<open>numResults\<close> is
  \<open>z.number().min(1).max(100).default(5)\<close>, the other fields take their defaults. On
  a value of the options type only the range of \<open>numResults\<close> can be refused.
\<close>

definition with_defaults :: "SearchOptions_input \<Rightarrow> real \<Rightarrow> SearchOptions" where
  "with_defaults opts n =
     \<lparr> o_numResults = n,
       o_searchType = (case i_searchType opts of None \<Rightarrow> Auto | Some t \<Rightarrow> t),
       o_text = (case i_text opts of None \<Rightarrow> True | Some b \<Rightarrow> b),
       o_highlights = (case i_highlights opts of None \<Rightarrow> True | Some b \<Rightarrow> b),
       o_summary = (case i_summary opts of None \<Rightarrow> True | Some b \<Rightarrow> b),
       o_startPublishedDate = i_startPublishedDate opts,
       o_endPublishedDate = i_endPublishedDate opts,
       o_includeDomains = i_includeDomains opts,
       o_excludeDomains = i_excludeDomains opts \<rparr>"

definition SearchOptionsSchema_parse :: "zod_messages \<Rightarrow> SearchOptions_input \<Rightarrow> thrown + SearchOptions" where
  "SearchOptionsSchema_parse z opts =
     (case i_numResults opts of
        None \<Rightarrow> Inr (with_defaults opts 5)
      | Some n \<Rightarrow>
          if n < 1 then zod_fail z [zod_too_small z]
          else if n > 100 then zod_fail z [zod_too_big z]
          else Inr (with_defaults opts n))"

text \<open>\<open>options ? SearchOptionsSchema.parse(options) : null\<close>\<close>

definition parse_options :: "zod_messages \<Rightarrow> SearchOptions_input option \<Rightarrow> thrown + SearchOptions option" where
  "parse_options z options =
     (case options of
        None \<Rightarrow> Inr None
      | Some opts \<Rightarrow>
          (case SearchOptionsSchema_parse z opts of
             Inl error \<Rightarrow> Inl error
           | Inr parsed \<Rightarrow> Inr (Some parsed)))"

text \<open>\<open>parsedOptions?.numResults || 5\<close>: \<open>undefined\<close> and \<open>0\<close> are falsy.\<close>

definition numResults_or :: "SearchOptions option \<Rightarrow> real \<Rightarrow> real" where
  "numResults_or parsedOptions d =
     (case parsedOptions of
        None \<Rightarrow> d
      | Some p \<Rightarrow> if o_numResults p = 0 then d else o_numResults p)"

text \<open>\<open>if (parsedOptions?.startPublishedDate)\<close>: a missing and an empty string are falsy.\<close>

definition truthy_string :: "jsstring option \<Rightarrow> jsstring option" where
  "truthy_string v = (case v of None \<Rightarrow> None | Some s \<Rightarrow> if s = [] then None else Some s)"

definition build_searchParams :: "SearchOptions option \<Rightarrow> real \<Rightarrow> searchParams" where
  "build_searchParams parsedOptions numResults =
     \<lparr> sp_numResults = numResults,
       sp_type = (case parsedOptions of None \<Rightarrow> Auto | Some p \<Rightarrow> o_searchType p),
       sp_text = (case parsedOptions of None \<Rightarrow> True | Some p \<Rightarrow> o_text p \<noteq> False),
       sp_highlights = (case parsedOptions of None \<Rightarrow> True | Some p \<Rightarrow> o_highlights p \<noteq> False),
       sp_summary = (case parsedOptions of None \<Rightarrow> True | Some p \<Rightarrow> o_summary p \<noteq> False),
       sp_startPublishedDate =
         (case parsedOptions of None \<Rightarrow> None | Some p \<Rightarrow> truthy_string (o_startPublishedDate p)),
       sp_endPublishedDate =
         (case parsedOptions of None \<Rightarrow> None | Some p \<Rightarrow> truthy_string (o_endPublishedDate p)),
       sp_includeDomains = (case parsedOptions of None \<Rightarrow> None | Some p \<Rightarrow> o_includeDomains p),
       sp_excludeDomains = (case parsedOptions of None \<Rightarrow> None | Some p \<Rightarrow> o_excludeDomains p) \<rparr>"

text \<open>The object that \<open>response.results.map\<close> builds from one provider result.\<close>

definition copy_result :: "provider_result \<Rightarrow> ExaSearchResult" where
  "copy_result r =
     \<lparr> r_title = r_title r, r_url = r_url r, r_id = r_id r, r_text = r_text r,
       r_highlights = r_highlights r, r_summary = r_summary r,
       r_publishedDate = r_publishedDate r, r_author = r_author r,
       r_image = r_image r, r_favicon = r_favicon r \<rparr>"

text \<open>The body of the \<open>try\<close> block of \<open>webSearch\<close>.\<close>

definition webSearch_body :: "env \<Rightarrow> jsstring \<Rightarrow> SearchOptions_input option \<Rightarrow> WebSearchResponse io" where
  "webSearch_body env query options =
     io_bind
       (if query = [] \<or> length (trim query) = 0
        then io_throw (Error (utf16 ''Search query cannot be empty''))
        else io_return ())
       (\<lambda>u. io_bind (io_of (ExaApiKeySchema_parse (zod env) (EXA_API_KEY env)))
       (\<lambda>apiKey. io_bind (io_of (parse_options (zod env) options))
       (\<lambda>parsedOptions.
          let numResults = min (max (numResults_or parsedOptions 5) 3) 5
          in io_bind (io_of (new_Exa env apiKey))
       (\<lambda>exa.
          let searchParams = build_searchParams parsedOptions numResults
          in io_bind
               (io_call (Exa_searchAndContents apiKey query searchParams)
                  (\<lambda>tr. searchAndContents env tr apiKey query searchParams))
               (\<lambda>response. io_return
                  \<lparr> results = map copy_result (resp_results response),
                    requestId = resp_requestId response,
                    resolvedSearchType =
                      (case parsedOptions of None \<Rightarrow> Auto | Some p \<Rightarrow> o_searchType p),
                    costDollars = resp_costDollars response \<rparr>)))))"

text \<open>The \<open>catch\<close> block of \<open>webSearch\<close>: every error leaves as a fresh \<open>Error\<close>.\<close>

fun webSearch_catch :: "thrown \<Rightarrow> WebSearchResponse io" where
  "webSearch_catch (ZodError m issues) =
     io_throw (Error (utf16 ''Validation error: '' @ join (utf16 '', '') issues))"
| "webSearch_catch (Error m) = io_throw (Error (utf16 ''Web search failed: '' @ m))"
| "webSearch_catch (NonError s) =
     io_throw (Error (utf16 ''An unexpected error occurred during web search''))"

definition webSearch :: "env \<Rightarrow> jsstring \<Rightarrow> SearchOptions_input option \<Rightarrow> WebSearchResponse io" where
  "webSearch env query options = try_catch (webSearch_body env query options) webSearch_catch"

subsection \<open>\<open>fetchUrl\<close>\<close>

text \<open>
  \<open>new HybridEngine({...})\<close> only stores its configuration. The engine is named by the
  number of engines created before it, so that a release names the engine it releases.
\<close>

definition engines_created :: "event list \<Rightarrow> nat" where
  "engines_created tr = length (filter (\<lambda>e. case e of HybridEngine_new n \<Rightarrow> True | _ \<Rightarrow> False) tr)"

definition new_HybridEngine :: "nat io" where
  "new_HybridEngine tr = (Inr (engines_created tr), tr @ [HybridEngine_new (engines_created tr)])"

definition fetchUrl :: "env \<Rightarrow> jsstring \<Rightarrow> jsstring io" where
  "fetchUrl env url =
     io_bind new_HybridEngine
       (\<lambda>engine.
          try_finally
            (try_catch
               (io_bind (io_call (HybridEngine_fetchHTML engine url) (\<lambda>tr. fetchHTML env tr url))
                  (\<lambda>result. io_return (html_content result)))
               (\<lambda>error. io_throw error))
            (io_call (HybridEngine_cleanup engine) (cleanup env)))"

subsection \<open>\<open>generateHaiku\<close>\<close>

definition fallback_haiku :: jsstring where
  "fallback_haiku =
     utf16 ''AI dreams unfold here\<newline>Words dance like cherry blossoms\<newline>Spring code gently flows''"

definition generateHaiku :: "env \<Rightarrow> jsstring \<Rightarrow> jsstring io" where
  "generateHaiku env prompt =
     try_catch
       (io_bind
          (io_call (ai_generateText gpt_4_1_nano (haikuPrompt prompt))
             (\<lambda>tr. generateText env tr gpt_4_1_nano (haikuPrompt prompt)))
          (\<lambda>result. io_return result))
       (\<lambda>error. io_return fallback_haiku)"

section \<open>The workflow (\<open>agenticWorkflow\<close>)\<close>

text \<open>
  The dispatch loop mutates the local array \<open>toolResults\<close> and calls the executors; its
  state is the array together with the log. One iteration of each inner loop is a
  \<open>try\<close> that pushes a result and a \<open>catch\<close> that pushes an error.
\<close>

type_synonym dispatch_state = "tool_result list \<times> event list"

definition webSearch_iteration :: "env \<Rightarrow> jsstring \<Rightarrow> dispatch_state \<Rightarrow> dispatch_state" where
  "webSearch_iteration env query st =
     (case st of (toolResults, tr) \<Rightarrow>
        (case webSearch env query None tr of
           (Inr result, tr') \<Rightarrow>
             (toolResults @
                [\<lparr> tool = WebSearch, arg = query,
                   outcome = Result (SearchPayload (take 3 (results result))) \<rparr>], tr')
         | (Inl error, tr') \<Rightarrow>
             (toolResults @
                [\<lparr> tool = WebSearch, arg = query,
                   outcome = ErrorMessage (error_description error) \<rparr>], tr')))"

definition fetchUrl_iteration :: "env \<Rightarrow> jsstring \<Rightarrow> dispatch_state \<Rightarrow> dispatch_state" where
  "fetchUrl_iteration env url st =
     (case st of (toolResults, tr) \<Rightarrow>
        (case fetchUrl env url tr of
           (Inr content, tr') \<Rightarrow>
             (toolResults @
                [\<lparr> tool = FetchUrl, arg = url,
                   outcome = Result (FetchPayload (take 2000 content) (length content)) \<rparr>], tr')
         | (Inl error, tr') \<Rightarrow>
             (toolResults @
                [\<lparr> tool = FetchUrl, arg = url,
                   outcome = ErrorMessage (error_description error) \<rparr>], tr')))"

definition generateHaiku_iteration :: "env \<Rightarrow> jsstring \<Rightarrow> dispatch_state \<Rightarrow> dispatch_state" where
  "generateHaiku_iteration env prompt st =
     (case st of (toolResults, tr) \<Rightarrow>
        (case generateHaiku env prompt tr of
           (Inr haiku, tr') \<Rightarrow>
             (toolResults @
                [\<lparr> tool = GenerateHaiku, arg = prompt,
                   outcome = Result (HaikuPayload haiku) \<rparr>], tr')
         | (Inl error, tr') \<Rightarrow>
             (toolResults @
                [\<lparr> tool = GenerateHaiku, arg = prompt,
                   outcome = ErrorMessage (error_description error) \<rparr>], tr')))"

text \<open>
  The body of \<open>for (const toolName of plan.object.tools)\<close>: three \<open>if\<close>s in sequence,
  each guarded by the tool's name and by \<open>parameters\<close> being truthy (an array, also an
  empty one, is truthy; \<open>undefined\<close> is not).
\<close>

definition tool_iteration :: "env \<Rightarrow> plan \<Rightarrow> tool_name \<Rightarrow> dispatch_state \<Rightarrow> dispatch_state" where
  "tool_iteration env pl toolName st =
     (let params = lookup_parameters (parameters pl) toolName;
          st1 = (case params of
                   Some queries \<Rightarrow>
                     if toolName = WebSearch then fold (webSearch_iteration env) queries st else st
                 | None \<Rightarrow> st);
          st2 = (case params of
                   Some urls \<Rightarrow>
                     if toolName = FetchUrl then fold (fetchUrl_iteration env) urls st1 else st1
                 | None \<Rightarrow> st1);
          st3 = (case params of
                   Some prompts \<Rightarrow>
                     if toolName = GenerateHaiku
                     then fold (generateHaiku_iteration env) prompts st2 else st2
                 | None \<Rightarrow> st2)
      in st3)"

definition execute_tools :: "env \<Rightarrow> plan \<Rightarrow> dispatch_state \<Rightarrow> dispatch_state" where
  "execute_tools env pl st = fold (tool_iteration env pl) (tools pl) st"

record workflow_result =
  wf_plan :: plan
  wf_toolResults :: "tool_result list"
  wf_response :: jsstring

definition agenticWorkflow :: "env \<Rightarrow> jsstring \<Rightarrow> workflow_result io" where
  "agenticWorkflow env userQuery =
     io_bind
       (io_call (ai_generateObject gemini_2_5_flash (plannerPrompt userQuery))
          (\<lambda>tr. generateObject env tr gemini_2_5_flash (plannerPrompt userQuery)))
       (\<lambda>pl tr.
          case execute_tools env pl ([], tr) of
            (toolResults, tr') \<Rightarrow>
              io_bind
                (io_call
                   (ai_generateText gpt_4_1_mini
                      (synthesisPrompt (reasoning pl) (expectedWorkflow pl) userQuery toolResults))
                   (\<lambda>tr. generateText env tr gpt_4_1_mini
                      (synthesisPrompt (reasoning pl) (expectedWorkflow pl) userQuery toolResults)))
                (\<lambda>finalResponse. io_return
                   \<lparr> wf_plan = pl, wf_toolResults = toolResults, wf_response = finalResponse \<rparr>)
                tr')"

section \<open>The plan's flattened order\<close>

text \<open>
  The spec's ToolInvocation sequence: \<open>tools\<close> in the given order and, within each tool,
  \<open>parameters[tool]\<close> in the given order; a missing entry gives no invocation.
\<close>

definition parameters_of :: "plan \<Rightarrow> tool_name \<Rightarrow> jsstring list" where
  "parameters_of pl t = (case lookup_parameters (parameters pl) t of None \<Rightarrow> [] | Some ps \<Rightarrow> ps)"

definition flattened_invocations :: "plan \<Rightarrow> (tool_name \<times> jsstring) list" where
  "flattened_invocations pl = concat (map (\<lambda>t. map (Pair t) (parameters_of pl t)) (tools pl))"

text \<open>One invocation, as the inner loop of its tool carries it out.\<close>

fun invoke :: "env \<Rightarrow> tool_name \<times> jsstring \<Rightarrow> dispatch_state \<Rightarrow> dispatch_state" where
  "invoke env (WebSearch, a) = webSearch_iteration env a"
| "invoke env (FetchUrl, a) = fetchUrl_iteration env a"
| "invoke env (GenerateHaiku, a) = generateHaiku_iteration env a"

definition invocation_of :: "tool_result \<Rightarrow> tool_name \<times> jsstring" where
  "invocation_of r = (tool r, arg r)"

text \<open>The two model calls of the workflow, as events, and the state the dispatch loop leaves.\<close>

definition planning_call :: "jsstring \<Rightarrow> event" where
  "planning_call userQuery = ai_generateObject gemini_2_5_flash (plannerPrompt userQuery)"

definition synthesis_prompt :: "plan \<Rightarrow> jsstring \<Rightarrow> tool_result list \<Rightarrow> prompt" where
  "synthesis_prompt pl userQuery rs =
     synthesisPrompt (reasoning pl) (expectedWorkflow pl) userQuery rs"

definition dispatched :: "env \<Rightarrow> plan \<Rightarrow> jsstring \<Rightarrow> event list \<Rightarrow> dispatch_state" where
  "dispatched env pl userQuery tr = execute_tools env pl ([], tr @ [planning_call userQuery])"

text \<open>What a caller of \<open>webSearch\<close> asked for: \<open>options?.numResults\<close>.\<close>

definition requested_numResults :: "SearchOptions_input option \<Rightarrow> real option" where
  "requested_numResults options =
     (case options of None \<Rightarrow> None | Some opts \<Rightarrow> i_numResults opts)"

text \<open>How often a log releases an engine.\<close>

definition cleanup_count :: "nat \<Rightarrow> event list \<Rightarrow> nat" where
  "cleanup_count engine tr = length (filter (\<lambda>e. e = HybridEngine_cleanup engine) tr)"

text \<open>
  The tool whose executor issues an event: the search call for \<open>webSearch\<close>, the three
  engine events for \<open>fetchUrl\<close>, the haiku prompt for \<open>generateHaiku\<close>; the planning and
  synthesis calls of the workflow itself belong to no tool. \<open>calls_of t\<close> keeps the
  events of a log that the executor of \<open>t\<close> issued.
\<close>

fun event_tool :: "event \<Rightarrow> tool_name option" where
  "event_tool (Exa_searchAndContents k q sp) = Some WebSearch"
| "event_tool (HybridEngine_new n) = Some FetchUrl"
| "event_tool (HybridEngine_fetchHTML n u) = Some FetchUrl"
| "event_tool (HybridEngine_cleanup n) = Some FetchUrl"
| "event_tool (ai_generateText m (haikuPrompt p)) = Some GenerateHaiku"
| "event_tool (ai_generateText m (plannerPrompt p)) = None"
| "event_tool (ai_generateText m (synthesisPrompt a b c rs)) = None"
| "event_tool (ai_generateObject m p) = None"

definition calls_of :: "tool_name \<Rightarrow> event list \<Rightarrow> event list" where
  "calls_of t tr = filter (\<lambda>e. event_tool e = Some t) tr"

definition is_error :: "tool_result \<Rightarrow> bool" where
  "is_error r = (case outcome r of ErrorMessage m \<Rightarrow> True | Result p \<Rightarrow> False)"

section \<open>A scenario\<close>

text \<open>
  Concrete collaborators on which the workflow is run: the search provider is down for
  the query \<open>down\<close> and returns seven hits for every other query; the fetch provider
  fails for the URL \<open>bad\<close> and returns a page of 2500 code units otherwise; the text
  model refuses every haiku and answers the synthesis prompt. The plan searches twice
  and names \<open>generateHaiku\<close> without prompts; it carries a URL for \<open>fetchUrl\<close>, which is
  not among its tools.
\<close>

definition sample_hit :: provider_result where
  "sample_hit =
     \<lparr> r_title = utf16 ''Title'', r_url = utf16 ''https://example.com'', r_id = utf16 ''1'',
       r_text = None, r_highlights = None, r_summary = Some (utf16 ''Summary''),
       r_publishedDate = None, r_author = None, r_image = None, r_favicon = None,
       r_score = Some 1, r_highlightScores = None \<rparr>"

definition scenario_plan :: plan where
  "scenario_plan =
     \<lparr> reasoning = utf16 ''search twice'',
       tools = [WebSearch, GenerateHaiku],
       parameters =
         \<lparr> p_webSearch = Some [utf16 ''down'', utf16 ''up''],
           p_fetchUrl = Some [utf16 ''https://example.com''],
           p_generateHaiku = None \<rparr>,
       expectedWorkflow = utf16 ''summarise'' \<rparr>"

definition scenario_env :: env where
  "scenario_env =
     \<lparr> EXA_API_KEY = Some (utf16 ''key''),
       zod = \<lparr> zod_invalid_type = utf16 ''Required'', zod_too_small = utf16 ''Too small'',
               zod_too_big = utf16 ''Too big'', zod_error_message = join (utf16 ''; '') \<rparr>,
       new_Exa = (\<lambda>apiKey. Inr ()),
       searchAndContents =
         (\<lambda>tr apiKey query sp.
            if query = utf16 ''down'' then Inl (Error (utf16 ''503''))
            else Inr \<lparr> resp_results = replicate 7 sample_hit, resp_requestId = utf16 ''req'',
                       resp_costDollars = None \<rparr>),
       fetchHTML =
         (\<lambda>tr url.
            if url = utf16 ''bad'' then Inl (NonError (utf16 ''timeout''))
            else Inr \<lparr> html_content = replicate 2500 0x61, html_error = None \<rparr>),
       cleanup = (\<lambda>tr. Inr ()),
       generateText =
         (\<lambda>tr m p. case p of haikuPrompt x \<Rightarrow> Inl (Error (utf16 ''rate limit''))
                    | plannerPrompt x \<Rightarrow> Inl (Error (utf16 ''unused''))
                    | synthesisPrompt x y z rs \<Rightarrow> Inr (utf16 ''answer'')),
       generateObject = (\<lambda>tr m p. Inr scenario_plan) \<rparr>"

text \<open>Options that ask for a single result.\<close>

definition one_result_options :: SearchOptions_input where
  "one_result_options =
     \<lparr> i_numResults = Some 1, i_searchType = Some Neural, i_text = Some True,
       i_highlights = Some True, i_summary = Some True, i_startPublishedDate = None,
       i_endPublishedDate = None, i_includeDomains = None, i_excludeDomains = None \<rparr>"

section \<open>Properties of the executors\<close>

lemma generateHaiku_eq:
  "generateHaiku env prompt tr =
     (Inr (case generateText env tr gpt_4_1_nano (haikuPrompt prompt) of
             Inl e \<Rightarrow> fallback_haiku | Inr txt \<Rightarrow> txt),
      tr @ [ai_generateText gpt_4_1_nano (haikuPrompt prompt)])"
  by (simp add: generateHaiku_def try_catch_def io_bind_def io_call_def io_return_def
      split: sum.split)

lemma fetchUrl_eq:
  "fetchUrl env url tr =
     (case cleanup env (tr @ [HybridEngine_new (engines_created tr),
                              HybridEngine_fetchHTML (engines_created tr) url]) of
        Inl cleanup_error \<Rightarrow> Inl cleanup_error
      | Inr u \<Rightarrow>
          (case fetchHTML env (tr @ [HybridEngine_new (engines_created tr)]) url of
             Inl error \<Rightarrow> Inl error
           | Inr result \<Rightarrow> Inr (html_content result)),
      tr @ [HybridEngine_new (engines_created tr),
            HybridEngine_fetchHTML (engines_created tr) url,
            HybridEngine_cleanup (engines_created tr)])"
  by (simp add: fetchUrl_def new_HybridEngine_def try_finally_def try_catch_def io_bind_def
      io_call_def io_return_def io_throw_def split: sum.split)

lemma trim_blank:
  assumes "\<forall>c\<in>set s. isWhiteSpace c"
  shows "trim s = []"
proof -
  from assms have blank: "dropWhile isWhiteSpace s = []"
    by simp
  show ?thesis
    unfolding trim_def blank by simp
qed

text \<open>\<open>webSearch\<close>, path by path.\<close>

lemma webSearch_catch_eq:
  "webSearch_catch e tr =
     (Inl (Error (case e of
        ZodError m issues \<Rightarrow> utf16 ''Validation error: '' @ join (utf16 '', '') issues
      | Error m \<Rightarrow> utf16 ''Web search failed: '' @ m
      | NonError s \<Rightarrow> utf16 ''An unexpected error occurred during web search'')), tr)"
  by (cases e) (simp_all add: io_throw_def)

lemma webSearch_eq:
  "webSearch env query options tr =
     (if query = [] \<or> trim query = []
      then webSearch_catch (Error (utf16 ''Search query cannot be empty'')) tr
      else case ExaApiKeySchema_parse (zod env) (EXA_API_KEY env) of
        Inl e \<Rightarrow> webSearch_catch e tr
      | Inr apiKey \<Rightarrow>
          (case parse_options (zod env) options of
             Inl e \<Rightarrow> webSearch_catch e tr
           | Inr parsedOptions \<Rightarrow>
               (case new_Exa env apiKey of
                  Inl e \<Rightarrow> webSearch_catch e tr
                | Inr exa \<Rightarrow>
               (case searchAndContents env tr apiKey query
                       (build_searchParams parsedOptions
                          (min (max (numResults_or parsedOptions 5) 3) 5)) of
                  Inl e \<Rightarrow>
                    webSearch_catch e
                      (tr @ [Exa_searchAndContents apiKey query
                               (build_searchParams parsedOptions
                                  (min (max (numResults_or parsedOptions 5) 3) 5))])
                | Inr response \<Rightarrow>
                    (Inr \<lparr> results = map copy_result (resp_results response),
                           requestId = resp_requestId response,
                           resolvedSearchType =
                             (case parsedOptions of None \<Rightarrow> Auto | Some p \<Rightarrow> o_searchType p),
                           costDollars = resp_costDollars response \<rparr>,
                     tr @ [Exa_searchAndContents apiKey query
                             (build_searchParams parsedOptions
                                (min (max (numResults_or parsedOptions 5) 3) 5))])))))"
  by (simp add: webSearch_def webSearch_body_def try_catch_def io_bind_def io_throw_def
      io_return_def io_of_def io_call_def Let_def split: sum.split)

lemma webSearch_calls:
  "snd (webSearch env query options tr) = tr
   \<or> (\<exists>apiKey parsedOptions.
         parse_options (zod env) options = Inr parsedOptions
       \<and> snd (webSearch env query options tr) =
           tr @ [Exa_searchAndContents apiKey query
                   (build_searchParams parsedOptions
                      (min (max (numResults_or parsedOptions 5) 3) 5))])"
  by (auto simp: webSearch_eq webSearch_catch_eq io_throw_def split: sum.split)

lemma parse_options_numResults:
  assumes "parse_options z options = Inr parsedOptions"
  shows "min (max (numResults_or parsedOptions 5) 3) 5 =
           (case requested_numResults options of
              None \<Rightarrow> 5
            | Some n \<Rightarrow> if n < 3 then 3 else if 5 < n then 5 else n)"
  using assms
  by (auto simp: parse_options_def SearchOptionsSchema_parse_def requested_numResults_def
      numResults_or_def with_defaults_def zod_fail_def
      split: option.splits sum.splits if_splits)

section \<open>Properties of the dispatch loop\<close>

lemma webSearch_iteration_appends:
  "\<exists>out tr'. webSearch_iteration env a (rs, tr) =
     (rs @ [\<lparr>tool = WebSearch, arg = a, outcome = out\<rparr>], tr')"
  by (simp add: webSearch_iteration_def split: prod.split sum.split)

lemma fetchUrl_iteration_appends:
  "\<exists>out tr'. fetchUrl_iteration env a (rs, tr) =
     (rs @ [\<lparr>tool = FetchUrl, arg = a, outcome = out\<rparr>], tr')"
  by (simp add: fetchUrl_iteration_def split: prod.split sum.split)

lemma generateHaiku_iteration_appends:
  "\<exists>out tr'. generateHaiku_iteration env a (rs, tr) =
     (rs @ [\<lparr>tool = GenerateHaiku, arg = a, outcome = out\<rparr>], tr')"
  by (simp add: generateHaiku_iteration_def split: prod.split sum.split)

lemma invoke_appends:
  "\<exists>out tr'. invoke env (t, a) (rs, tr) = (rs @ [\<lparr>tool = t, arg = a, outcome = out\<rparr>], tr')"
  by (cases t) (simp_all add: webSearch_iteration_appends fetchUrl_iteration_appends
      generateHaiku_iteration_appends)

lemma invocation_of_invoke:
  "map invocation_of (fst (invoke env iv st)) = map invocation_of (fst st) @ [iv]"
proof -
  obtain t a where iv: "iv = (t, a)" by (cases iv)
  obtain rs tr where st: "st = (rs, tr)" by (cases st)
  from invoke_appends [of env t a rs tr] show ?thesis
    by (auto simp: iv st invocation_of_def)
qed

lemma invocation_of_fold_invoke:
  "map invocation_of (fst (fold (invoke env) ivs st)) = map invocation_of (fst st) @ ivs"
  by (induction ivs arbitrary: st) (simp_all add: invocation_of_invoke)

text \<open>The nested loops are one pass over the flattened order.\<close>

lemma tool_iteration_invoke:
  "tool_iteration env pl t st = fold (invoke env) (map (Pair t) (parameters_of pl t)) st"
proof -
  have "invoke env \<circ> Pair WebSearch = webSearch_iteration env"
    and "invoke env \<circ> Pair FetchUrl = fetchUrl_iteration env"
    and "invoke env \<circ> Pair GenerateHaiku = generateHaiku_iteration env"
    by (simp_all add: fun_eq_iff)
  then show ?thesis
    by (cases t) (simp_all add: tool_iteration_def parameters_of_def fold_map split: option.split)
qed

lemma execute_tools_invoke:
  "execute_tools env pl st = fold (invoke env) (flattened_invocations pl) st"
proof -
  have "fold (tool_iteration env pl) ts s =
        fold (invoke env) (concat (map (\<lambda>t. map (Pair t) (parameters_of pl t)) ts)) s" for ts s
    by (induction ts arbitrary: s) (simp_all add: tool_iteration_invoke)
  then show ?thesis
    by (simp add: execute_tools_def flattened_invocations_def)
qed

lemma invocation_of_execute_tools:
  "map invocation_of (fst (execute_tools env pl (rs, tr))) =
     map invocation_of rs @ flattened_invocations pl"
  by (simp add: execute_tools_invoke invocation_of_fold_invoke)

text \<open>Once the plan is there, the workflow is the dispatch loop followed by the synthesis call.\<close>

lemma agenticWorkflow_planned:
  assumes "generateObject env tr gemini_2_5_flash (plannerPrompt userQuery) = Inr pl"
  shows "agenticWorkflow env userQuery tr =
     (map_sum id
        (\<lambda>txt. \<lparr> wf_plan = pl, wf_toolResults = fst (dispatched env pl userQuery tr),
                 wf_response = txt \<rparr>)
        (generateText env (snd (dispatched env pl userQuery tr)) gpt_4_1_mini
           (synthesis_prompt pl userQuery (fst (dispatched env pl userQuery tr)))),
      snd (dispatched env pl userQuery tr) @
        [ai_generateText gpt_4_1_mini
           (synthesis_prompt pl userQuery (fst (dispatched env pl userQuery tr)))])"
  using assms
  by (simp add: agenticWorkflow_def io_bind_def io_call_def io_return_def dispatched_def
      planning_call_def synthesis_prompt_def split: prod.split sum.split)

lemma generateHaiku_iteration_eq:
  "generateHaiku_iteration env prompt (rs, tr) =
     (rs @ [\<lparr> tool = GenerateHaiku, arg = prompt,
              outcome = Result (HaikuPayload
                (case generateText env tr gpt_4_1_nano (haikuPrompt prompt) of
                   Inl e \<Rightarrow> fallback_haiku | Inr txt \<Rightarrow> txt)) \<rparr>],
      tr @ [ai_generateText gpt_4_1_nano (haikuPrompt prompt)])"
  by (simp add: generateHaiku_iteration_def generateHaiku_eq)

lemma invoke_keeps_haiku_errors:
  "filter (\<lambda>r. tool r = GenerateHaiku \<and> is_error r) (fst (invoke env iv st)) =
   filter (\<lambda>r. tool r = GenerateHaiku \<and> is_error r) (fst st)"
proof -
  obtain t a where iv: "iv = (t, a)" by (cases iv)
  obtain rs tr where st: "st = (rs, tr)" by (cases st)
  show ?thesis
  proof (cases t)
    case WebSearch
    with webSearch_iteration_appends [of env a rs tr] show ?thesis
      by (auto simp: iv st)
  next
    case FetchUrl
    with fetchUrl_iteration_appends [of env a rs tr] show ?thesis
      by (auto simp: iv st)
  next
    case GenerateHaiku
    then show ?thesis
      by (simp add: iv st generateHaiku_iteration_eq is_error_def)
  qed
qed

lemma fold_invoke_keeps_haiku_errors:
  "filter (\<lambda>r. tool r = GenerateHaiku \<and> is_error r) (fst (fold (invoke env) ivs st)) =
   filter (\<lambda>r. tool r = GenerateHaiku \<and> is_error r) (fst st)"
  by (induction ivs arbitrary: st) (simp_all add: invoke_keeps_haiku_errors)

lemma fold_invoke_extends:
  "\<exists>more. fst (fold (invoke env) ivs (rs, tr)) = rs @ more"
proof (induction ivs arbitrary: rs tr)
  case Nil
  show ?case by simp
next
  case (Cons iv ivs)
  obtain t a where iv: "iv = (t, a)" by (cases iv)
  from invoke_appends [of env t a rs tr] obtain out tr'
    where step: "invoke env (t, a) (rs, tr) = (rs @ [\<lparr>tool = t, arg = a, outcome = out\<rparr>], tr')"
    by blast
  from Cons.IH [of "rs @ [\<lparr>tool = t, arg = a, outcome = out\<rparr>]" tr'] show ?case
    by (auto simp: iv step)
qed

lemma flattened_unused:
  assumes "t \<notin> set (tools pl) \<or> lookup_parameters (parameters pl) t = None
           \<or> lookup_parameters (parameters pl) t = Some []"
  shows "filter (\<lambda>iv. fst iv = t) (flattened_invocations pl) = []"
proof -
  have "fst iv \<noteq> t" if "iv \<in> set (flattened_invocations pl)" for iv
    using that assms
    by (auto simp: flattened_invocations_def parameters_of_def split: option.splits)
  then show ?thesis
    by (simp add: filter_empty_conv)
qed

text \<open>An invocation of one tool adds no event of another tool.\<close>

lemma webSearch_iteration_calls:
  "t \<noteq> WebSearch \<Longrightarrow>
   calls_of t (snd (webSearch_iteration env a (rs, tr))) = calls_of t tr"
proof -
  assume other: "t \<noteq> WebSearch"
  have "snd (webSearch_iteration env a (rs, tr)) = snd (webSearch env a None tr)"
    by (simp add: webSearch_iteration_def split: prod.split sum.split)
  with webSearch_calls [of env a None tr] other show ?thesis
    by (auto simp: calls_of_def)
qed

lemma fetchUrl_iteration_calls:
  "t \<noteq> FetchUrl \<Longrightarrow>
   calls_of t (snd (fetchUrl_iteration env a (rs, tr))) = calls_of t tr"
  by (auto simp: fetchUrl_iteration_def fetchUrl_eq calls_of_def split: sum.split)

lemma generateHaiku_iteration_calls:
  "t \<noteq> GenerateHaiku \<Longrightarrow>
   calls_of t (snd (generateHaiku_iteration env a (rs, tr))) = calls_of t tr"
  by (auto simp: generateHaiku_iteration_eq calls_of_def)

lemma invoke_calls:
  assumes "fst iv \<noteq> t"
  shows "calls_of t (snd (invoke env iv st)) = calls_of t (snd st)"
proof -
  obtain t' a where iv: "iv = (t', a)" by (cases iv)
  obtain rs tr where st: "st = (rs, tr)" by (cases st)
  from assms iv have "t \<noteq> t'" by auto
  then show ?thesis
    by (cases t')
       (simp_all add: iv st webSearch_iteration_calls fetchUrl_iteration_calls
          generateHaiku_iteration_calls)
qed

lemma fold_invoke_calls:
  assumes "\<forall>iv\<in>set ivs. fst iv \<noteq> t"
  shows "calls_of t (snd (fold (invoke env) ivs st)) = calls_of t (snd st)"
  using assms
  by (induction ivs arbitrary: st) (simp_all add: invoke_calls)

section \<open>The scenario, evaluated\<close>

lemma scenario_search_down:
  "webSearch scenario_env (utf16 ''down'') None tr =
     (Inl (Error (utf16 ''Web search failed: 503'')),
      tr @ [Exa_searchAndContents (utf16 ''key'') (utf16 ''down'') (build_searchParams None 5)])"
  by (simp add: webSearch_def webSearch_body_def try_catch_def io_bind_def io_throw_def
      io_return_def io_of_def io_call_def scenario_env_def ExaApiKeySchema_parse_def
      parse_options_def numResults_or_def utf16_def trim_def isWhiteSpace_def)

lemma scenario_search_up:
  "webSearch scenario_env (utf16 ''up'') None tr =
     (Inr \<lparr> results = replicate 7 (copy_result sample_hit), requestId = utf16 ''req'',
            resolvedSearchType = Auto, costDollars = None \<rparr>,
      tr @ [Exa_searchAndContents (utf16 ''key'') (utf16 ''up'') (build_searchParams None 5)])"
  by (simp add: webSearch_def webSearch_body_def try_catch_def io_bind_def io_throw_def
      io_return_def io_of_def io_call_def scenario_env_def ExaApiKeySchema_parse_def
      parse_options_def numResults_or_def utf16_def trim_def isWhiteSpace_def)

lemma scenario_planned:
  "generateObject scenario_env tr gemini_2_5_flash (plannerPrompt userQuery) = Inr scenario_plan"
  by (simp add: scenario_env_def)

lemma scenario_flattened:
  "flattened_invocations scenario_plan = [(WebSearch, utf16 ''down''), (WebSearch, utf16 ''up'')]"
  by (simp add: flattened_invocations_def parameters_of_def scenario_plan_def)

lemma scenario_search_one:
  "snd (webSearch scenario_env (utf16 ''up'') (Some one_result_options) []) =
     [] @ [Exa_searchAndContents (utf16 ''key'') (utf16 ''up'')
       (build_searchParams (Some (with_defaults one_result_options 1)) 3)]"
  by (simp add: webSearch_eq scenario_env_def ExaApiKeySchema_parse_def parse_options_def
      SearchOptionsSchema_parse_def one_result_options_def numResults_or_def with_defaults_def
      utf16_def trim_def isWhiteSpace_def)

lemma scenario_fetch_bad:
  "fetchHTML scenario_env tr (utf16 ''bad'') = Inl (NonError (utf16 ''timeout''))"
  by (simp add: scenario_env_def)

lemma scenario_fetch_page:
  "fetchHTML scenario_env tr (utf16 ''https://example.com'') =
     Inr \<lparr> html_content = replicate 2500 0x61, html_error = None \<rparr>"
  by (simp add: scenario_env_def utf16_def)

lemma scenario_cleanup: "cleanup scenario_env tr = Inr ()"
  by (simp add: scenario_env_def)

lemma scenario_fetchUrl_page:
  "fetchUrl scenario_env (utf16 ''https://example.com'') [] =
     (Inr (replicate 2500 0x61),
      [HybridEngine_new 0, HybridEngine_fetchHTML 0 (utf16 ''https://example.com''),
       HybridEngine_cleanup 0])"
  by (simp add: fetchUrl_eq scenario_fetch_page scenario_cleanup engines_created_def)

lemma scenario_synthesis:
  "generateText scenario_env tr gpt_4_1_mini (synthesis_prompt pl userQuery rs) = Inr (utf16 ''answer'')"
  by (simp add: scenario_env_def synthesis_prompt_def)

section \<open>The claims\<close>

text \<open>
  C1. For every plan, the dispatch loop produces as many tool results as the sum, over
  the tool identifiers in \<open>tools\<close> (in order, duplicates counted), of the length of
  \<open>parameters[tool]\<close>, a missing or empty entry counting as zero; a plan with an empty
  \<open>tools\<close> sequence yields no tool result.
\<close>

theorem dispatch_result_count:
  "length (fst (execute_tools env pl ([], tr))) =
     (\<Sum>t\<leftarrow>tools pl. case lookup_parameters (parameters pl) t of
                       None \<Rightarrow> 0 | Some args \<Rightarrow> length args)
   \<and> fst (execute_tools env (pl\<lparr>tools := []\<rparr>) ([], tr)) = []"
proof
  have "length (fst (execute_tools env pl ([], tr))) =
        length (map invocation_of (fst (execute_tools env pl ([], tr))))"
    by simp
  also have "\<dots> = length (flattened_invocations pl)"
    by (simp only: invocation_of_execute_tools) simp
  also have "\<dots> = (\<Sum>t\<leftarrow>tools pl. length (parameters_of pl t))"
    by (simp add: flattened_invocations_def length_concat comp_def)
  also have "\<dots> = (\<Sum>t\<leftarrow>tools pl. case lookup_parameters (parameters pl) t of
                       None \<Rightarrow> 0 | Some args \<Rightarrow> length args)"
    by (rule arg_cong [where f = sum_list], rule map_cong)
       (simp_all add: parameters_of_def split: option.split)
  finally show "length (fst (execute_tools env pl ([], tr))) =
     (\<Sum>t\<leftarrow>tools pl. case lookup_parameters (parameters pl) t of
                       None \<Rightarrow> 0 | Some args \<Rightarrow> length args)" .
  show "fst (execute_tools env (pl\<lparr>tools := []\<rparr>) ([], tr)) = []"
    by (simp add: execute_tools_def)
qed

text \<open>
  C2. For every plan the planning call returns, the tool results handed to the synthesis
  call are, entry by entry, the tool identifier and argument of the plan's flattened
  invocations: \<open>tools\<close> in the given order and, within a tool, \<open>parameters[tool]\<close> in the
  given order. The collaborators may answer in any way, at any call.
\<close>

theorem toolResults_in_flattened_order:
  assumes "generateObject env tr gemini_2_5_flash (plannerPrompt userQuery) = Inr pl"
  shows "snd (agenticWorkflow env userQuery tr) =
           snd (dispatched env pl userQuery tr) @
             [ai_generateText gpt_4_1_mini
                (synthesis_prompt pl userQuery (fst (dispatched env pl userQuery tr)))]
         \<and> map invocation_of (fst (dispatched env pl userQuery tr)) = flattened_invocations pl"
  by (simp add: agenticWorkflow_planned [OF assms])
     (simp add: dispatched_def invocation_of_execute_tools)

theorem toolResults_in_flattened_order_witness:
  "generateObject scenario_env [] gemini_2_5_flash (plannerPrompt (utf16 ''q'')) = Inr scenario_plan
   \<and> snd (agenticWorkflow scenario_env (utf16 ''q'') []) =
           snd (dispatched scenario_env scenario_plan (utf16 ''q'') []) @
             [ai_generateText gpt_4_1_mini
                (synthesis_prompt scenario_plan (utf16 ''q'')
                   (fst (dispatched scenario_env scenario_plan (utf16 ''q'') [])))]
   \<and> map invocation_of (fst (dispatched scenario_env scenario_plan (utf16 ''q'') [])) =
       [(WebSearch, utf16 ''down''), (WebSearch, utf16 ''up'')]"
proof -
  have planned:
    "generateObject scenario_env [] gemini_2_5_flash (plannerPrompt (utf16 ''q'')) = Inr scenario_plan"
    by (simp add: scenario_env_def)
  have flat: "flattened_invocations scenario_plan = [(WebSearch, utf16 ''down''), (WebSearch, utf16 ''up'')]"
    by (simp add: flattened_invocations_def parameters_of_def scenario_plan_def)
  from toolResults_in_flattened_order [OF planned] planned flat show ?thesis
    by simp
qed

text \<open>
  C3. \<open>generateHaiku\<close> never throws: it returns the model's text, and when the model call
  fails it returns the fixed fallback haiku, so that the dispatcher records a success
  for that invocation; no run of the dispatch loop leaves an error result for
  \<open>generateHaiku\<close>.
\<close>

theorem generateHaiku_never_raises:
  "fst (generateHaiku env prompt tr) =
     Inr (case generateText env tr gpt_4_1_nano (haikuPrompt prompt) of
            Inl e \<Rightarrow> fallback_haiku | Inr txt \<Rightarrow> txt)
   \<and> (\<forall>e. generateText env tr gpt_4_1_nano (haikuPrompt prompt) = Inl e \<longrightarrow>
          fst (generateHaiku env prompt tr) = Inr fallback_haiku
          \<and> fst (generateHaiku_iteration env prompt (rs, tr)) =
              rs @ [\<lparr> tool = GenerateHaiku, arg = prompt,
                       outcome = Result (HaikuPayload fallback_haiku) \<rparr>])
   \<and> filter (\<lambda>r. tool r = GenerateHaiku \<and> is_error r) (fst (execute_tools env pl ([], tr))) = []"
proof (intro conjI allI impI)
  show "fst (generateHaiku env prompt tr) =
     Inr (case generateText env tr gpt_4_1_nano (haikuPrompt prompt) of
            Inl e \<Rightarrow> fallback_haiku | Inr txt \<Rightarrow> txt)"
    by (simp add: generateHaiku_eq)
next
  fix e assume "generateText env tr gpt_4_1_nano (haikuPrompt prompt) = Inl e"
  then show "fst (generateHaiku env prompt tr) = Inr fallback_haiku"
    and "fst (generateHaiku_iteration env prompt (rs, tr)) =
              rs @ [\<lparr> tool = GenerateHaiku, arg = prompt,
                       outcome = Result (HaikuPayload fallback_haiku) \<rparr>]"
    by (simp_all add: generateHaiku_eq generateHaiku_iteration_eq)
next
  show "filter (\<lambda>r. tool r = GenerateHaiku \<and> is_error r) (fst (execute_tools env pl ([], tr))) = []"
    by (simp add: execute_tools_invoke fold_invoke_keeps_haiku_errors)
qed

theorem generateHaiku_never_raises_witness:
  "generateText scenario_env [] gpt_4_1_nano (haikuPrompt (utf16 ''the sea'')) =
     Inl (Error (utf16 ''rate limit''))
   \<and> fst (generateHaiku scenario_env (utf16 ''the sea'') []) = Inr fallback_haiku
   \<and> fst (generateHaiku_iteration scenario_env (utf16 ''the sea'') ([], [])) =
       [\<lparr> tool = GenerateHaiku, arg = utf16 ''the sea'',
          outcome = Result (HaikuPayload fallback_haiku) \<rparr>]"
proof -
  have fails: "generateText scenario_env [] gpt_4_1_nano (haikuPrompt (utf16 ''the sea'')) =
     Inl (Error (utf16 ''rate limit''))"
    by (simp add: scenario_env_def)
  from generateHaiku_never_raises [of scenario_env "utf16 ''the sea''" "[]" "[]" scenario_plan] fails
  show ?thesis
    by simp
qed

text \<open>
  C4. When an invocation of \<open>webSearch\<close> or \<open>fetchUrl\<close> in the plan's flattened order
  throws, the dispatch loop records an error result for that invocation, with the tool,
  the argument and the error's description, and goes on with every later invocation;
  the result sequence still covers the whole flattened order and is handed to the
  synthesis call.
\<close>

theorem tool_failure_recorded_run_continues:
  assumes planned: "generateObject env tr gemini_2_5_flash (plannerPrompt userQuery) = Inr pl"
    and split: "flattened_invocations pl = before @ (t, a) # after"
    and reached: "fold (invoke env) before ([], tr @ [planning_call userQuery]) = (rs, tr1)"
    and fails: "(t = WebSearch \<and> webSearch env a None tr1 = (Inl error, tr2))
              \<or> (t = FetchUrl \<and> fetchUrl env a tr1 = (Inl error, tr2))"
  shows "dispatched env pl userQuery tr =
           fold (invoke env) after
             (rs @ [\<lparr> tool = t, arg = a, outcome = ErrorMessage (error_description error) \<rparr>], tr2)
       \<and> fst (dispatched env pl userQuery tr) ! length before =
           \<lparr> tool = t, arg = a, outcome = ErrorMessage (error_description error) \<rparr>
       \<and> map invocation_of (fst (dispatched env pl userQuery tr)) = flattened_invocations pl
       \<and> snd (agenticWorkflow env userQuery tr) =
           snd (dispatched env pl userQuery tr) @
             [ai_generateText gpt_4_1_mini
                (synthesis_prompt pl userQuery (fst (dispatched env pl userQuery tr)))]"
proof (intro conjI)
  let ?r = "\<lparr> tool = t, arg = a, outcome = ErrorMessage (error_description error) \<rparr>"
  from fails have step: "invoke env (t, a) (rs, tr1) = (rs @ [?r], tr2)"
    by (auto simp: webSearch_iteration_def fetchUrl_iteration_def)
  show run: "dispatched env pl userQuery tr = fold (invoke env) after (rs @ [?r], tr2)"
    by (simp add: dispatched_def execute_tools_invoke split reached step)
  from invocation_of_fold_invoke [of env before "([], tr @ [planning_call userQuery])"]
  have "length rs = length before"
    by (simp add: reached) (metis length_map)
  moreover from fold_invoke_extends [of env after "rs @ [?r]" tr2]
  obtain more where "fst (dispatched env pl userQuery tr) = (rs @ [?r]) @ more"
    unfolding run by blast
  ultimately show "fst (dispatched env pl userQuery tr) ! length before = ?r"
    by (simp add: nth_append)
  show "map invocation_of (fst (dispatched env pl userQuery tr)) = flattened_invocations pl"
    by (simp add: dispatched_def invocation_of_execute_tools)
  show "snd (agenticWorkflow env userQuery tr) =
           snd (dispatched env pl userQuery tr) @
             [ai_generateText gpt_4_1_mini
                (synthesis_prompt pl userQuery (fst (dispatched env pl userQuery tr)))]"
    by (simp add: agenticWorkflow_planned [OF planned])
qed

theorem tool_failure_recorded_run_continues_witness:
  "generateObject scenario_env [] gemini_2_5_flash (plannerPrompt (utf16 ''q'')) = Inr scenario_plan
   \<and> flattened_invocations scenario_plan =
       [] @ (WebSearch, utf16 ''down'') # [(WebSearch, utf16 ''up'')]
   \<and> fold (invoke scenario_env) [] ([], [] @ [planning_call (utf16 ''q'')]) =
       ([], [planning_call (utf16 ''q'')])
   \<and> webSearch scenario_env (utf16 ''down'') None [planning_call (utf16 ''q'')] =
       (Inl (Error (utf16 ''Web search failed: 503'')),
        [planning_call (utf16 ''q''),
         Exa_searchAndContents (utf16 ''key'') (utf16 ''down'') (build_searchParams None 5)])
   \<and> fst (dispatched scenario_env scenario_plan (utf16 ''q'') []) ! 0 =
       \<lparr> tool = WebSearch, arg = utf16 ''down'',
         outcome = ErrorMessage (utf16 ''Web search failed: 503'') \<rparr>
   \<and> map invocation_of (fst (dispatched scenario_env scenario_plan (utf16 ''q'') [])) =
       [(WebSearch, utf16 ''down''), (WebSearch, utf16 ''up'')]
   \<and> map is_error (fst (dispatched scenario_env scenario_plan (utf16 ''q'') [])) = [True, False]"
proof -
  let ?q = "utf16 ''q''"
  let ?tr2 = "[planning_call ?q,
         Exa_searchAndContents (utf16 ''key'') (utf16 ''down'') (build_searchParams None 5)]"
  have split: "flattened_invocations scenario_plan =
       [] @ (WebSearch, utf16 ''down'') # [(WebSearch, utf16 ''up'')]"
    by (simp add: scenario_flattened)
  have reached: "fold (invoke scenario_env) [] ([], [] @ [planning_call ?q]) =
       ([], [planning_call ?q])"
    by simp
  have down: "webSearch scenario_env (utf16 ''down'') None [planning_call ?q] =
       (Inl (Error (utf16 ''Web search failed: 503'')), ?tr2)"
    by (simp add: scenario_search_down)
  then have fails:
    "(WebSearch = WebSearch \<and> webSearch scenario_env (utf16 ''down'') None [planning_call ?q] =
        (Inl (Error (utf16 ''Web search failed: 503'')), ?tr2))
     \<or> (WebSearch = FetchUrl \<and> fetchUrl scenario_env (utf16 ''down'') [planning_call ?q] =
        (Inl (Error (utf16 ''Web search failed: 503'')), ?tr2))"
    by simp
  note run = tool_failure_recorded_run_continues [OF scenario_planned split reached fails]
  from run [THEN conjunct1]
  have errors: "map is_error (fst (dispatched scenario_env scenario_plan ?q [])) = [True, False]"
    by (simp add: webSearch_iteration_def scenario_search_up is_error_def)
  from run [THEN conjunct2, THEN conjunct1]
  have first: "fst (dispatched scenario_env scenario_plan ?q []) ! 0 =
       \<lparr> tool = WebSearch, arg = utf16 ''down'',
         outcome = ErrorMessage (utf16 ''Web search failed: 503'') \<rparr>"
    by simp
  from run [THEN conjunct2, THEN conjunct2, THEN conjunct1]
  have order: "map invocation_of (fst (dispatched scenario_env scenario_plan ?q [])) =
       [(WebSearch, utf16 ''down''), (WebSearch, utf16 ''up'')]"
    by (simp add: scenario_flattened)
  from scenario_planned split reached down first order errors show ?thesis
    by (intro conjI)
qed

text \<open>
  C5 (as the spec states it). The bound on the number of search results kept in a
  success result would be enforced inside \<open>webSearch\<close>, the dispatching caller attaching
  what \<open>webSearch\<close> returns without truncating. It is not so: in the scenario the provider
  sends seven hits, \<open>webSearch\<close> returns all seven, and the caller attaches three of them.
\<close>

theorem search_payload_bound_counterexample:
  "fst (webSearch scenario_env (utf16 ''up'') None []) =
     Inr \<lparr> results = replicate 7 (copy_result sample_hit), requestId = utf16 ''req'',
            resolvedSearchType = Auto, costDollars = None \<rparr>
   \<and> length (replicate 7 (copy_result sample_hit)) = 7
   \<and> fst (webSearch_iteration scenario_env (utf16 ''up'') ([], [])) =
       [\<lparr> tool = WebSearch, arg = utf16 ''up'',
          outcome = Result (SearchPayload (replicate 3 (copy_result sample_hit))) \<rparr>]
   \<and> replicate 3 (copy_result sample_hit) \<noteq> replicate 7 (copy_result sample_hit)"
proof (intro conjI)
  show "fst (webSearch scenario_env (utf16 ''up'') None []) =
     Inr \<lparr> results = replicate 7 (copy_result sample_hit), requestId = utf16 ''req'',
            resolvedSearchType = Auto, costDollars = None \<rparr>"
    by (simp add: scenario_search_up)
  show "length (replicate 7 (copy_result sample_hit)) = 7"
    by simp
  show "fst (webSearch_iteration scenario_env (utf16 ''up'') ([], [])) =
       [\<lparr> tool = WebSearch, arg = utf16 ''up'',
          outcome = Result (SearchPayload (replicate 3 (copy_result sample_hit))) \<rparr>]"
    by (simp add: webSearch_iteration_def scenario_search_up)
  have "length (replicate 3 (copy_result sample_hit)) \<noteq> length (replicate 7 (copy_result sample_hit))"
    by simp
  then show "replicate 3 (copy_result sample_hit) \<noteq> replicate 7 (copy_result sample_hit)"
    by metis
qed

text \<open>
  C5 (amended). \<open>webSearch\<close> bounds only the number of results it requests from the
  provider (5 when the dispatcher calls it) and returns every result the provider sends;
  the dispatching caller truncates: the payload of a success result is the first three
  results of \<open>webSearch\<close>'s response (\<open>result.results.slice(0, 3)\<close>), all of them when
  there are fewer.
\<close>

theorem search_payload_truncated_by_caller:
  assumes "webSearch env query None tr = (Inr result, tr')"
  shows "webSearch_iteration env query (rs, tr) =
           (rs @ [\<lparr> tool = WebSearch, arg = query,
                    outcome = Result (SearchPayload (take 3 (results result))) \<rparr>], tr')
       \<and> length (take 3 (results result)) = min 3 (length (results result))
       \<and> (\<exists>apiKey response.
             tr' = tr @ [Exa_searchAndContents apiKey query (build_searchParams None 5)]
           \<and> searchAndContents env tr apiKey query (build_searchParams None 5) = Inr response
           \<and> results result = map copy_result (resp_results response))"
proof (intro conjI)
  show "webSearch_iteration env query (rs, tr) =
           (rs @ [\<lparr> tool = WebSearch, arg = query,
                    outcome = Result (SearchPayload (take 3 (results result))) \<rparr>], tr')"
    by (simp add: webSearch_iteration_def assms)
  show "length (take 3 (results result)) = min 3 (length (results result))"
    by simp
  from assms show "\<exists>apiKey response.
             tr' = tr @ [Exa_searchAndContents apiKey query (build_searchParams None 5)]
           \<and> searchAndContents env tr apiKey query (build_searchParams None 5) = Inr response
           \<and> results result = map copy_result (resp_results response)"
    by (auto simp: webSearch_eq webSearch_catch_eq io_throw_def parse_options_def
        numResults_or_def split: if_splits sum.splits)
qed

theorem search_payload_truncated_by_caller_witness:
  "webSearch scenario_env (utf16 ''up'') None [] =
     (Inr \<lparr> results = replicate 7 (copy_result sample_hit), requestId = utf16 ''req'',
            resolvedSearchType = Auto, costDollars = None \<rparr>,
      [] @ [Exa_searchAndContents (utf16 ''key'') (utf16 ''up'') (build_searchParams None 5)])
   \<and> webSearch_iteration scenario_env (utf16 ''up'') ([], []) =
       ([\<lparr> tool = WebSearch, arg = utf16 ''up'',
           outcome = Result (SearchPayload (replicate 3 (copy_result sample_hit))) \<rparr>],
        [Exa_searchAndContents (utf16 ''key'') (utf16 ''up'') (build_searchParams None 5)])"
proof -
  note up = scenario_search_up [of "[]"]
  from search_payload_truncated_by_caller [OF up, of "[]", THEN conjunct1]
  have "webSearch_iteration scenario_env (utf16 ''up'') ([], []) =
       ([\<lparr> tool = WebSearch, arg = utf16 ''up'',
           outcome = Result (SearchPayload (replicate 3 (copy_result sample_hit))) \<rparr>],
        [Exa_searchAndContents (utf16 ''key'') (utf16 ''up'') (build_searchParams None 5)])"
    by simp
  with up show ?thesis
    by (intro conjI)
qed

text \<open>
  C6. For every URL, \<open>fetchUrl\<close> creates its engine first, calls \<open>fetchHTML\<close> on it and
  then \<open>cleanup\<close> on the same engine, exactly once, whether \<open>fetchHTML\<close> returned or
  threw; the provider's error is re-thrown to the caller, the content is returned
  otherwise (unless \<open>cleanup\<close> itself throws).
\<close>

theorem fetchUrl_releases_engine_once:
  "snd (fetchUrl env url tr) =
     tr @ [HybridEngine_new (engines_created tr),
           HybridEngine_fetchHTML (engines_created tr) url,
           HybridEngine_cleanup (engines_created tr)]
   \<and> cleanup_count (engines_created tr) (snd (fetchUrl env url tr)) =
       cleanup_count (engines_created tr) tr + 1
   \<and> fst (fetchUrl env url tr) =
       (case cleanup env (tr @ [HybridEngine_new (engines_created tr),
                                HybridEngine_fetchHTML (engines_created tr) url]) of
          Inl cleanup_error \<Rightarrow> Inl cleanup_error
        | Inr u \<Rightarrow>
            (case fetchHTML env (tr @ [HybridEngine_new (engines_created tr)]) url of
               Inl error \<Rightarrow> Inl error
             | Inr result \<Rightarrow> Inr (html_content result)))"
  by (simp add: fetchUrl_eq cleanup_count_def)

theorem fetchUrl_releases_engine_once_witness:
  "fst (fetchUrl scenario_env (utf16 ''bad'') []) = Inl (NonError (utf16 ''timeout''))
   \<and> cleanup_count 0 (snd (fetchUrl scenario_env (utf16 ''bad'') [])) = 1
   \<and> fst (fetchUrl scenario_env (utf16 ''https://example.com'') []) = Inr (replicate 2500 0x61)
   \<and> cleanup_count 0 (snd (fetchUrl scenario_env (utf16 ''https://example.com'') [])) = 1"
proof -
  have zero: "engines_created [] = 0" "cleanup_count 0 [] = 0"
    by (simp_all add: engines_created_def cleanup_count_def)
  note bad = fetchUrl_releases_engine_once [of scenario_env "utf16 ''bad''" "[]"]
  note page = fetchUrl_releases_engine_once [of scenario_env "utf16 ''https://example.com''" "[]"]
  from bad [THEN conjunct2, THEN conjunct2]
  have "fst (fetchUrl scenario_env (utf16 ''bad'') []) = Inl (NonError (utf16 ''timeout''))"
    by (simp add: scenario_fetch_bad scenario_cleanup)
  moreover from bad [THEN conjunct2, THEN conjunct1]
  have "cleanup_count 0 (snd (fetchUrl scenario_env (utf16 ''bad'') [])) = 1"
    by (simp add: zero)
  moreover from page [THEN conjunct2, THEN conjunct2]
  have "fst (fetchUrl scenario_env (utf16 ''https://example.com'') []) = Inr (replicate 2500 0x61)"
    by (simp add: scenario_fetch_page scenario_cleanup)
  moreover from page [THEN conjunct2, THEN conjunct1]
  have "cleanup_count 0 (snd (fetchUrl scenario_env (utf16 ''https://example.com'') [])) = 1"
    by (simp add: zero)
  ultimately show ?thesis
    by (intro conjI)
qed

text \<open>
  C7. When \<open>fetchUrl\<close> returns, the dispatcher records a success result whose content is
  the first 2000 code units of the fetched content (\<open>content.substring(0, 2000)\<close>) and
  whose \<open>contentLength\<close> is the length of the whole content, which is the content the
  fetch provider returned.
\<close>

theorem fetch_result_truncated_with_full_length:
  assumes "fetchUrl env url tr = (Inr content, tr')"
  shows "fetchUrl_iteration env url (rs, tr) =
           (rs @ [\<lparr> tool = FetchUrl, arg = url,
                    outcome = Result (FetchPayload (take 2000 content) (length content)) \<rparr>], tr')
       \<and> length (take 2000 content) = min 2000 (length content)
       \<and> (\<exists>result. fetchHTML env (tr @ [HybridEngine_new (engines_created tr)]) url = Inr result
                  \<and> content = html_content result)"
  using assms
  by (auto simp: fetchUrl_iteration_def fetchUrl_eq split: sum.splits)

theorem fetch_result_truncated_with_full_length_witness:
  "fetchUrl scenario_env (utf16 ''https://example.com'') [] =
     (Inr (replicate 2500 0x61),
      [HybridEngine_new 0, HybridEngine_fetchHTML 0 (utf16 ''https://example.com''),
       HybridEngine_cleanup 0])
   \<and> fetchUrl_iteration scenario_env (utf16 ''https://example.com'') ([], []) =
       ([\<lparr> tool = FetchUrl, arg = utf16 ''https://example.com'',
           outcome = Result (FetchPayload (replicate 2000 0x61) 2500) \<rparr>],
        [HybridEngine_new 0, HybridEngine_fetchHTML 0 (utf16 ''https://example.com''),
         HybridEngine_cleanup 0])"
  using fetch_result_truncated_with_full_length [OF scenario_fetchUrl_page, of "[]"]
    scenario_fetchUrl_page
  by simp

text \<open>
  C8. A tool that is absent from \<open>tools\<close> (whatever \<open>parameters\<close> holds for it), and a
  tool of \<open>tools\<close> whose \<open>parameters\<close> entry is missing or empty, contributes no
  invocation: the flattened order and the tool results hold nothing for it, the dispatch
  loop is exactly the pass over the invocations of the other tools, and neither the
  loop nor the whole workflow adds a call of that tool's executor to the log. Neither
  case is an error: the workflow goes on to the synthesis call and returns what it
  answers.
\<close>

theorem unused_tool_contributes_no_invocation:
  assumes planned: "generateObject env tr gemini_2_5_flash (plannerPrompt userQuery) = Inr pl"
    and unused: "t \<notin> set (tools pl) \<or> lookup_parameters (parameters pl) t = None
                 \<or> lookup_parameters (parameters pl) t = Some []"
  shows "filter (\<lambda>iv. fst iv = t) (flattened_invocations pl) = []
       \<and> filter (\<lambda>r. tool r = t) (fst (dispatched env pl userQuery tr)) = []
       \<and> dispatched env pl userQuery tr =
           fold (invoke env) (filter (\<lambda>iv. fst iv \<noteq> t) (flattened_invocations pl))
             ([], tr @ [planning_call userQuery])
       \<and> calls_of t (snd (dispatched env pl userQuery tr)) = calls_of t tr
       \<and> calls_of t (snd (agenticWorkflow env userQuery tr)) = calls_of t tr
       \<and> agenticWorkflow env userQuery tr =
           (map_sum id
              (\<lambda>txt. \<lparr> wf_plan = pl, wf_toolResults = fst (dispatched env pl userQuery tr),
                       wf_response = txt \<rparr>)
              (generateText env (snd (dispatched env pl userQuery tr)) gpt_4_1_mini
                 (synthesis_prompt pl userQuery (fst (dispatched env pl userQuery tr)))),
            snd (dispatched env pl userQuery tr) @
              [ai_generateText gpt_4_1_mini
                 (synthesis_prompt pl userQuery (fst (dispatched env pl userQuery tr)))])"
proof (intro conjI)
  show none: "filter (\<lambda>iv. fst iv = t) (flattened_invocations pl) = []"
    by (rule flattened_unused [OF unused])
  then have others: "\<forall>iv\<in>set (flattened_invocations pl). fst iv \<noteq> t"
    by (simp add: filter_empty_conv)
  then have same: "filter (\<lambda>iv. fst iv \<noteq> t) (flattened_invocations pl) = flattened_invocations pl"
    by simp
  have "map invocation_of (filter (\<lambda>r. tool r = t) (fst (dispatched env pl userQuery tr))) =
        filter (\<lambda>iv. fst iv = t) (map invocation_of (fst (dispatched env pl userQuery tr)))"
    by (simp add: filter_map comp_def invocation_of_def)
  also have "\<dots> = []"
    by (simp add: dispatched_def invocation_of_execute_tools none)
  finally show "filter (\<lambda>r. tool r = t) (fst (dispatched env pl userQuery tr)) = []"
    by simp
  show run: "dispatched env pl userQuery tr =
           fold (invoke env) (filter (\<lambda>iv. fst iv \<noteq> t) (flattened_invocations pl))
             ([], tr @ [planning_call userQuery])"
    by (simp only: same) (simp add: dispatched_def execute_tools_invoke)
  from fold_invoke_calls [OF others, of env "([], tr @ [planning_call userQuery])"]
  show quiet: "calls_of t (snd (dispatched env pl userQuery tr)) = calls_of t tr"
    by (simp add: dispatched_def execute_tools_invoke) (simp add: calls_of_def planning_call_def)
  show whole: "agenticWorkflow env userQuery tr =
           (map_sum id
              (\<lambda>txt. \<lparr> wf_plan = pl, wf_toolResults = fst (dispatched env pl userQuery tr),
                       wf_response = txt \<rparr>)
              (generateText env (snd (dispatched env pl userQuery tr)) gpt_4_1_mini
                 (synthesis_prompt pl userQuery (fst (dispatched env pl userQuery tr)))),
            snd (dispatched env pl userQuery tr) @
              [ai_generateText gpt_4_1_mini
                 (synthesis_prompt pl userQuery (fst (dispatched env pl userQuery tr)))])"
    by (rule agenticWorkflow_planned [OF planned])
  have "calls_of t (snd (agenticWorkflow env userQuery tr)) =
        calls_of t (snd (dispatched env pl userQuery tr))"
    by (simp add: whole) (simp add: calls_of_def synthesis_prompt_def)
  with quiet show "calls_of t (snd (agenticWorkflow env userQuery tr)) = calls_of t tr"
    by simp
qed

theorem unused_tool_contributes_no_invocation_witness:
  "generateObject scenario_env [] gemini_2_5_flash (plannerPrompt (utf16 ''q'')) = Inr scenario_plan
   \<and> FetchUrl \<notin> set (tools scenario_plan)
   \<and> lookup_parameters (parameters scenario_plan) FetchUrl = Some [utf16 ''https://example.com'']
   \<and> GenerateHaiku \<in> set (tools scenario_plan)
   \<and> lookup_parameters (parameters scenario_plan) GenerateHaiku = None
   \<and> filter (\<lambda>r. tool r = FetchUrl) (fst (dispatched scenario_env scenario_plan (utf16 ''q'') [])) = []
   \<and> filter (\<lambda>r. tool r = GenerateHaiku)
        (fst (dispatched scenario_env scenario_plan (utf16 ''q'') [])) = []
   \<and> calls_of FetchUrl (snd (agenticWorkflow scenario_env (utf16 ''q'') [])) = []
   \<and> calls_of GenerateHaiku (snd (agenticWorkflow scenario_env (utf16 ''q'') [])) = []
   \<and> snd (dispatched scenario_env scenario_plan (utf16 ''q'') []) =
       [planning_call (utf16 ''q''),
        Exa_searchAndContents (utf16 ''key'') (utf16 ''down'') (build_searchParams None 5),
        Exa_searchAndContents (utf16 ''key'') (utf16 ''up'') (build_searchParams None 5)]
   \<and> fst (agenticWorkflow scenario_env (utf16 ''q'') []) =
       Inr \<lparr> wf_plan = scenario_plan,
              wf_toolResults = fst (dispatched scenario_env scenario_plan (utf16 ''q'') []),
              wf_response = utf16 ''answer'' \<rparr>"
proof -
  have absent: "FetchUrl \<notin> set (tools scenario_plan)"
    and present: "lookup_parameters (parameters scenario_plan) FetchUrl = Some [utf16 ''https://example.com'']"
    and named: "GenerateHaiku \<in> set (tools scenario_plan)"
    and missing: "lookup_parameters (parameters scenario_plan) GenerateHaiku = None"
    by (simp_all add: scenario_plan_def)
  from absent have unused_fetch:
    "FetchUrl \<notin> set (tools scenario_plan)
     \<or> lookup_parameters (parameters scenario_plan) FetchUrl = None
     \<or> lookup_parameters (parameters scenario_plan) FetchUrl = Some []"
    by simp
  from missing have unused_haiku:
    "GenerateHaiku \<notin> set (tools scenario_plan)
     \<or> lookup_parameters (parameters scenario_plan) GenerateHaiku = None
     \<or> lookup_parameters (parameters scenario_plan) GenerateHaiku = Some []"
    by simp
  note fetch = unused_tool_contributes_no_invocation
    [of scenario_env "[]" "utf16 ''q''" scenario_plan FetchUrl, OF scenario_planned unused_fetch]
  note haiku = unused_tool_contributes_no_invocation
    [of scenario_env "[]" "utf16 ''q''" scenario_plan GenerateHaiku,
     OF scenario_planned unused_haiku]
  have no_calls: "calls_of t [] = []" for t
    by (simp add: calls_of_def)
  from fetch [THEN conjunct2, THEN conjunct2, THEN conjunct2, THEN conjunct2, THEN conjunct1]
  have quiet_fetch: "calls_of FetchUrl (snd (agenticWorkflow scenario_env (utf16 ''q'') [])) = []"
    by (simp add: no_calls)
  from haiku [THEN conjunct2, THEN conjunct2, THEN conjunct2, THEN conjunct2, THEN conjunct1]
  have quiet_haiku: "calls_of GenerateHaiku (snd (agenticWorkflow scenario_env (utf16 ''q'') [])) = []"
    by (simp add: no_calls)
  from fetch [THEN conjunct2, THEN conjunct2, THEN conjunct1]
  have trace: "snd (dispatched scenario_env scenario_plan (utf16 ''q'') []) =
       [planning_call (utf16 ''q''),
        Exa_searchAndContents (utf16 ''key'') (utf16 ''down'') (build_searchParams None 5),
        Exa_searchAndContents (utf16 ''key'') (utf16 ''up'') (build_searchParams None 5)]"
    by (simp add: scenario_flattened webSearch_iteration_def scenario_search_down
        scenario_search_up)
  from fetch [THEN conjunct2, THEN conjunct2, THEN conjunct2, THEN conjunct2, THEN conjunct2]
  have answer: "fst (agenticWorkflow scenario_env (utf16 ''q'') []) =
       Inr \<lparr> wf_plan = scenario_plan,
              wf_toolResults = fst (dispatched scenario_env scenario_plan (utf16 ''q'') []),
              wf_response = utf16 ''answer'' \<rparr>"
    by (simp add: scenario_synthesis)
  from scenario_planned absent present named missing
    fetch [THEN conjunct2, THEN conjunct1] haiku [THEN conjunct2, THEN conjunct1]
    quiet_fetch quiet_haiku trace answer
  show ?thesis
    by (intro conjI)
qed

text \<open>
  C9. For a query that is empty or made of white space only, \<open>webSearch\<close> throws an
  \<open>Error\<close> with the message \<open>Web search failed: Search query cannot be empty\<close> and
  leaves the log as it was: the search provider is not called.
\<close>

theorem webSearch_rejects_blank_query:
  assumes "\<forall>c\<in>set query. isWhiteSpace c"
  shows "webSearch env query options tr =
           (Inl (Error (utf16 ''Web search failed: Search query cannot be empty'')), tr)"
  using trim_blank [OF assms]
  by (simp add: webSearch_eq io_throw_def utf16_def)

theorem webSearch_rejects_blank_query_witness:
  "list_all isWhiteSpace [0x20, 0x09, 0x3000]
   \<and> webSearch scenario_env [0x20, 0x09, 0x3000] None [] =
       (Inl (Error (utf16 ''Web search failed: Search query cannot be empty'')), [])
   \<and> webSearch scenario_env [] None [] =
       (Inl (Error (utf16 ''Web search failed: Search query cannot be empty'')), [])"
proof -
  have blank: "\<forall>c\<in>set [0x20, 0x09, 0x3000]. isWhiteSpace c"
    by (simp add: isWhiteSpace_def)
  have empty: "\<forall>c\<in>set ([] :: jsstring). isWhiteSpace c"
    by simp
  from webSearch_rejects_blank_query [OF blank, of scenario_env None "[]"]
    webSearch_rejects_blank_query [OF empty, of scenario_env None "[]"] blank
  show ?thesis
    by (simp add: list_all_iff)
qed

text \<open>
  C10. Whenever \<open>webSearch\<close> calls the search provider, the \<open>numResults\<close> it requests lies
  in the closed interval from 3 to 5: a requested value below 3 is raised to 3, one
  above 5 is lowered to 5, and a missing one (no options, or options without
  \<open>numResults\<close>) becomes 5.
\<close>

theorem webSearch_numResults_clamped:
  assumes "snd (webSearch env query options tr) = tr @ evs"
    and "Exa_searchAndContents apiKey q sp \<in> set evs"
  shows "3 \<le> sp_numResults sp \<and> sp_numResults sp \<le> 5
       \<and> sp_numResults sp =
           (case requested_numResults options of
              None \<Rightarrow> 5
            | Some n \<Rightarrow> if n < 3 then 3 else if 5 < n then 5 else n)"
proof -
  from webSearch_calls [of env query options tr] assms
  obtain key parsedOptions where parsed: "parse_options (zod env) options = Inr parsedOptions"
    and "evs = [Exa_searchAndContents key query
                  (build_searchParams parsedOptions
                     (min (max (numResults_or parsedOptions 5) 3) 5))]"
    by auto
  with assms(2) have "sp = build_searchParams parsedOptions
                     (min (max (numResults_or parsedOptions 5) 3) 5)"
    by simp
  then have n: "sp_numResults sp = min (max (numResults_or parsedOptions 5) 3) 5"
    by (simp add: build_searchParams_def)
  have "3 \<le> min (max (numResults_or parsedOptions 5) 3) (5::real)"
    and "min (max (numResults_or parsedOptions 5) 3) (5::real) \<le> 5"
    by simp_all
  with n parse_options_numResults [OF parsed] show ?thesis
    by simp
qed

theorem webSearch_numResults_clamped_witness:
  "snd (webSearch scenario_env (utf16 ''up'') (Some one_result_options) []) =
     [] @ [Exa_searchAndContents (utf16 ''key'') (utf16 ''up'')
       (build_searchParams (Some (with_defaults one_result_options 1)) 3)]
   \<and> requested_numResults (Some one_result_options) = Some 1
   \<and> sp_numResults (build_searchParams (Some (with_defaults one_result_options 1)) 3) = 3"
proof -
  have asked: "requested_numResults (Some one_result_options) = Some 1"
    by (simp add: requested_numResults_def one_result_options_def)
  from webSearch_numResults_clamped [OF scenario_search_one, of "utf16 ''key''" "utf16 ''up''"
      "build_searchParams (Some (with_defaults one_result_options 1)) 3"]
  have "sp_numResults (build_searchParams (Some (with_defaults one_result_options 1)) 3) = 3"
    by (simp add: asked)
  with scenario_search_one asked show ?thesis
    by (intro conjI)
qed

end
